theory Spec2Isabelle
  imports Main "HOL-Library.Char_ord" "HOL-Library.List_Lexorder" "HOL-Library.Multiset"
    "HOL-Library.Word"
begin

unbundle bit_operations_syntax

section \<open>Schema model (src/types, as used by schema.service.ts and the decorators)\<close>

text \<open>
  JavaScript strings are modelled as \<^typ>\<open>string\<close>; a character stands for the code point
  of the same number. An optional property (\<open>field?: T\<close>) is an \<^typ>\<open>'a option\<close>, with
  \<open>None\<close> for \<open>undefined\<close>.
\<close>

type_synonym DatabaseColumnType = string

text \<open>
  Modelled from the spec: the enum \<open>DatabaseActionType\<close> of src/enum is not among the
  sources; its members and their texts are the five actions the spec lists.
\<close>

datatype DatabaseActionType = NO_ACTION | CASCADE | RESTRICT | SET_NULL | SET_DEFAULT

fun actionText :: "DatabaseActionType \<Rightarrow> string" where
  "actionText NO_ACTION = ''NO ACTION''"
| "actionText CASCADE = ''CASCADE''"
| "actionText RESTRICT = ''RESTRICT''"
| "actionText SET_NULL = ''SET NULL''"
| "actionText SET_DEFAULT = ''SET DEFAULT''"

text \<open>
  Modelled from the spec: the enum \<open>DatabaseConstraintType\<close> of src/enum is not among the
  sources; \<open>Object.values\<close> of it lists the four tags in the order the spec gives them.
\<close>

datatype DatabaseConstraintType = PRIMARY_KEY | FOREIGN_KEY | UNIQUE | CHECK

definition DatabaseConstraintType_values :: "DatabaseConstraintType list" where
  "DatabaseConstraintType_values = [PRIMARY_KEY, FOREIGN_KEY, UNIQUE, CHECK]"

record DatabaseColumn =
  c_primary :: "bool option"
  c_name :: string
  c_tableName :: string
  c_type :: DatabaseColumnType
  c_nullable :: bool
  c_isArray :: bool
  c_default :: "string option"
  c_values :: "string list option"
  c_numericPrecision :: "int option"
  c_numericScale :: "int option"

text \<open>
  \<open>unique\<close> is optional here: the test suite of the service builds an index without it, and
  the emitter and the differ only test it for truth and compare it with \<open>!==\<close>.
\<close>

record DatabaseIndex =
  i_name :: string
  i_tableName :: string
  i_columnNames :: "string list option"
  i_expression :: "string option"
  i_unique :: "bool option"
  i_using :: "string option"
  i_where :: "string option"

datatype DatabaseConstraint =
    PrimaryKey string string "string list"
  | ForeignKey string string "string list" string "string list"
      "DatabaseActionType option" "DatabaseActionType option"
  | Unique string string "string list"
  | Check string string string

text \<open>
  The constructors take \<open>name\<close>, \<open>tableName\<close> and then \<open>columnNames\<close> (and for a foreign key
  \<open>referenceTableName\<close>, \<open>referenceColumnNames\<close>, \<open>onUpdate\<close>, \<open>onDelete\<close>) or \<open>expression\<close>.
  The functions below are the property reads of the source on a value of the union.
\<close>

fun k_type :: "DatabaseConstraint \<Rightarrow> DatabaseConstraintType" where
  "k_type (PrimaryKey n t cs) = PRIMARY_KEY"
| "k_type (ForeignKey n t cs rt rcs u d) = FOREIGN_KEY"
| "k_type (Unique n t cs) = UNIQUE"
| "k_type (Check n t e) = CHECK"

fun k_name :: "DatabaseConstraint \<Rightarrow> string" where
  "k_name (PrimaryKey n t cs) = n"
| "k_name (ForeignKey n t cs rt rcs u d) = n"
| "k_name (Unique n t cs) = n"
| "k_name (Check n t e) = n"

fun k_tableName :: "DatabaseConstraint \<Rightarrow> string" where
  "k_tableName (PrimaryKey n t cs) = t"
| "k_tableName (ForeignKey n t cs rt rcs u d) = t"
| "k_tableName (Unique n t cs) = t"
| "k_tableName (Check n t e) = t"

fun k_columnNames :: "DatabaseConstraint \<Rightarrow> string list option" where
  "k_columnNames (PrimaryKey n t cs) = Some cs"
| "k_columnNames (ForeignKey n t cs rt rcs u d) = Some cs"
| "k_columnNames (Unique n t cs) = Some cs"
| "k_columnNames (Check n t e) = None"

fun k_referenceTableName :: "DatabaseConstraint \<Rightarrow> string option" where
  "k_referenceTableName (ForeignKey n t cs rt rcs u d) = Some rt"
| "k_referenceTableName _ = None"

fun k_referenceColumnNames :: "DatabaseConstraint \<Rightarrow> string list option" where
  "k_referenceColumnNames (ForeignKey n t cs rt rcs u d) = Some rcs"
| "k_referenceColumnNames _ = None"

fun k_onUpdate :: "DatabaseConstraint \<Rightarrow> DatabaseActionType option" where
  "k_onUpdate (ForeignKey n t cs rt rcs u d) = u"
| "k_onUpdate _ = None"

fun k_onDelete :: "DatabaseConstraint \<Rightarrow> DatabaseActionType option" where
  "k_onDelete (ForeignKey n t cs rt rcs u d) = d"
| "k_onDelete _ = None"

fun k_expression :: "DatabaseConstraint \<Rightarrow> string option" where
  "k_expression (Check n t e) = Some e"
| "k_expression _ = None"

record DatabaseTable =
  t_name :: string
  t_columns :: "DatabaseColumn list"
  t_indexes :: "DatabaseIndex list"
  t_constraints :: "DatabaseConstraint list"

record DatabaseSchema =
  s_name :: string
  s_tables :: "DatabaseTable list"

datatype SchemaDiff =
    TableCreate string "DatabaseColumn list"
  | TableDelete string
  | ColumnCreate DatabaseColumn
  | ColumnUpdate DatabaseColumn DatabaseColumn
  | ColumnDelete string string
  | ConstraintCreate DatabaseConstraint
  | ConstraintDelete string string
  | IndexCreate DatabaseIndex
  | IndexDelete string

section \<open>Plain objects used as dictionaries\<close>

text \<open>
  The differ builds its lookup tables with \<open>Object.fromEntries\<close>, lists their keys with
  \<open>Object.keys\<close> and reads them with \<open>map[key]\<close>. A read of a key the object does not own
  falls through to \<open>Object.prototype\<close>, so it yields a member of the prototype when the key
  is the name of one, and \<open>undefined\<close> otherwise. A value read from a dictionary is therefore
  one of three things; \<open>Inherited n\<close> is a member of the prototype whose own \<open>name\<close> property
  is \<open>n\<close> (every other property the differ reads on it is \<open>undefined\<close>).
\<close>

datatype 'a jsval = Undefined | Own 'a | Inherited "string option"

text \<open>
  The members of \<open>Object.prototype\<close> (ECMAScript, annex B included) with their \<open>name\<close>:
  eleven functions, and the accessor \<open>__proto__\<close>, whose value is the prototype itself.
\<close>

definition objectPrototype :: "(string \<times> string option) list" where
  "objectPrototype =
     [(''constructor'', Some ''Object''),
      (''__defineGetter__'', Some ''__defineGetter__''),
      (''__defineSetter__'', Some ''__defineSetter__''),
      (''hasOwnProperty'', Some ''hasOwnProperty''),
      (''__lookupGetter__'', Some ''__lookupGetter__''),
      (''__lookupSetter__'', Some ''__lookupSetter__''),
      (''isPrototypeOf'', Some ''isPrototypeOf''),
      (''propertyIsEnumerable'', Some ''propertyIsEnumerable''),
      (''toString'', Some ''toString''),
      (''valueOf'', Some ''valueOf''),
      (''__proto__'', None),
      (''toLocaleString'', Some ''toLocaleString'')]"

text \<open>
  An object made by \<open>Object.fromEntries\<close> is kept as the list of its entries, in the order
  given. A later entry overwrites the value of an earlier one with the same key.
\<close>

type_synonym 'a object = "(string \<times> 'a) list"

definition get :: "'a object \<Rightarrow> string \<Rightarrow> 'a jsval" where
  "get obj key =
     (case map_of (rev obj) key of
        Some v \<Rightarrow> Own v
      | None \<Rightarrow> (case map_of objectPrototype key of Some n \<Rightarrow> Inherited n | None \<Rightarrow> Undefined))"

text \<open>Insertion order of a \<open>Set\<close>: the first occurrence of each element.\<close>

definition uniq :: "'a list \<Rightarrow> 'a list" where
  "uniq xs = rev (remdups (rev xs))"

text \<open>
  \<open>Object.keys\<close> lists the keys that are array indices (canonical decimal numerals below
  \<open>2^32 - 1\<close>) first, in ascending numeric order, and then the other keys in the order of
  their first insertion.
\<close>

definition isDigit :: "char \<Rightarrow> bool" where
  "isDigit c = (CHR ''0'' \<le> c \<and> c \<le> CHR ''9'')"

definition digitsValue :: "string \<Rightarrow> nat" where
  "digitsValue s = foldl (\<lambda>n c. 10 * n + (of_char c - 48)) 0 s"

definition isArrayIndex :: "string \<Rightarrow> bool" where
  "isArrayIndex s =
     (case s of
        [] \<Rightarrow> False
      | c # cs \<Rightarrow> list_all isDigit s \<and> (if c = CHR ''0'' then cs = [] else True) \<and>
                 digitsValue s < 2 ^ 32 - 1)"

definition Object_keys :: "'a object \<Rightarrow> string list" where
  "Object_keys obj =
     (let ks = uniq (map fst obj)
      in sort_key digitsValue (filter isArrayIndex ks) @ filter (\<lambda>k. \<not> isArrayIndex k) ks)"

fun truthy :: "'a jsval \<Rightarrow> bool" where
  "truthy Undefined = False"
| "truthy (Own r) = True"
| "truthy (Inherited n) = True"

text \<open>
  Property reads. \<open>readField\<close> reads a required property, \<open>readOptional\<close> an optional one and \<open>readName\<close>
  the property \<open>name\<close>, which a function of the prototype has too. The source reads a
  property only of a value it has tested for truth, so the equations for \<open>Undefined\<close> are
  never used.
\<close>

fun readField :: "('a \<Rightarrow> 'b) \<Rightarrow> 'a jsval \<Rightarrow> 'b option" where
  "readField f (Own r) = Some (f r)"
| "readField f (Inherited n) = None"
| "readField f Undefined = None"

fun readOptional :: "('a \<Rightarrow> 'b option) \<Rightarrow> 'a jsval \<Rightarrow> 'b option" where
  "readOptional f (Own r) = f r"
| "readOptional f (Inherited n) = None"
| "readOptional f Undefined = None"

fun readName :: "('a \<Rightarrow> string) \<Rightarrow> 'a jsval \<Rightarrow> string option" where
  "readName f (Own r) = Some (f r)"
| "readName f (Inherited n) = n"
| "readName f Undefined = None"

section \<open>The diff engine (schema.service.ts, \<open>diff\<close> and the functions it calls)\<close>

text \<open>
  A run of the differ ends in one of three ways: it returns a list of changes (\<open>Inr\<close>); it
  throws a \<open>TypeError\<close>; or it returns a list in which some change holds a value of the wrong
  shape, because it was built from a member of \<open>Object.prototype\<close> (\<open>IllTyped\<close>; such a
  list is not described further). A change under construction is a \<^typ>\<open>SchemaDiff option\<close>,
  \<open>None\<close> when a part of it is not of its declared type.
\<close>

datatype error = TypeError | IllTyped

type_synonym result = "error + SchemaDiff list"

definition typed :: "SchemaDiff option list \<Rightarrow> result" where
  "typed items = (case those items of Some xs \<Rightarrow> Inr xs | None \<Rightarrow> Inl IllTyped)"

text \<open>\<open>items.push(...rest)\<close>, and the spread of two results into one array literal. An
  exception ends the run, whatever was collected before.\<close>

fun pushAll :: "result \<Rightarrow> result \<Rightarrow> result" where
  "pushAll (Inl TypeError) rest = Inl TypeError"
| "pushAll items (Inl TypeError) = Inl TypeError"
| "pushAll (Inl IllTyped) rest = Inl IllTyped"
| "pushAll items (Inl IllTyped) = Inl IllTyped"
| "pushAll (Inr xs) (Inr ys) = Inr (xs @ ys)"

fun column_create :: "DatabaseColumn jsval \<Rightarrow> SchemaDiff option" where
  "column_create (Own column) = Some (ColumnCreate column)"
| "column_create _ = None"

fun column_update :: "DatabaseColumn jsval \<Rightarrow> DatabaseColumn jsval \<Rightarrow> SchemaDiff option" where
  "column_update (Own source) (Own target) = Some (ColumnUpdate source target)"
| "column_update _ _ = None"

fun column_delete :: "string option \<Rightarrow> string option \<Rightarrow> SchemaDiff option" where
  "column_delete (Some tableName) (Some columnName) = Some (ColumnDelete tableName columnName)"
| "column_delete _ _ = None"

fun constraint_create :: "DatabaseConstraint jsval \<Rightarrow> SchemaDiff option" where
  "constraint_create (Own constraint) = Some (ConstraintCreate constraint)"
| "constraint_create _ = None"

fun constraint_delete :: "string option \<Rightarrow> string option \<Rightarrow> SchemaDiff option" where
  "constraint_delete (Some tableName) (Some constraintName) = Some (ConstraintDelete tableName constraintName)"
| "constraint_delete _ _ = None"

fun index_create :: "DatabaseIndex jsval \<Rightarrow> SchemaDiff option" where
  "index_create (Own index) = Some (IndexCreate index)"
| "index_create _ = None"

fun index_delete :: "string option \<Rightarrow> SchemaDiff option" where
  "index_delete (Some indexName) = Some (IndexDelete indexName)"
| "index_delete None = None"

fun table_delete :: "string option \<Rightarrow> SchemaDiff option" where
  "table_delete (Some tableName) = Some (TableDelete tableName)"
| "table_delete None = None"

text \<open>
  Modelled from the spec: \<open>setIsEqual\<close> of src/utils/set is not among the sources; the spec
  has the column lists compared as sets. A \<open>Set\<close> is kept as the list of its elements in
  insertion order.
\<close>

definition new_Set :: "string list \<Rightarrow> string list" where
  "new_Set xs = uniq xs"

definition setIsEqual :: "string list \<Rightarrow> string list \<Rightarrow> bool" where
  "setIsEqual a b = (set a = set b)"

definition haveEqualColumns :: "string list option \<Rightarrow> string list option \<Rightarrow> bool" where
  "haveEqualColumns sourceColumns targetColumns =
     setIsEqual (new_Set (case sourceColumns of Some cs \<Rightarrow> cs | None \<Rightarrow> []))
                (new_Set (case targetColumns of Some cs \<Rightarrow> cs | None \<Rightarrow> []))"

definition dropAndRecreateColumn :: "DatabaseColumn jsval \<Rightarrow> DatabaseColumn jsval \<Rightarrow> result" where
  "dropAndRecreateColumn source target =
     typed [column_delete (readField c_tableName target) (readName c_name target), column_create source]"

definition dropAndRecreateConstraint :: "DatabaseConstraint jsval \<Rightarrow> DatabaseConstraint jsval \<Rightarrow> result" where
  "dropAndRecreateConstraint source target =
     typed [constraint_delete (readField k_tableName target) (readName k_name target), constraint_create source]"

definition dropAndRecreateIndex :: "DatabaseIndex jsval \<Rightarrow> DatabaseIndex jsval \<Rightarrow> result" where
  "dropAndRecreateIndex source target =
     typed [index_delete (readName i_name target), index_create source]"

definition diffColumn :: "DatabaseColumn jsval \<Rightarrow> DatabaseColumn jsval \<Rightarrow> result" where
  "diffColumn source target =
     (if truthy source \<and> \<not> truthy target then typed [column_create source]
      else if \<not> truthy source \<and> truthy target then
        typed [column_delete (readField c_tableName target) (readName c_name target)]
      else if \<not> truthy source \<or> \<not> truthy target then Inr []
      else if readField c_type source \<noteq> readField c_type target then dropAndRecreateColumn source target
      else if readField c_type source \<noteq> readField c_type target \<or>
              readField c_nullable source \<noteq> readField c_nullable target \<or>
              readOptional c_primary source \<noteq> readOptional c_primary target \<or>
              readOptional c_default source \<noteq> readOptional c_default target \<or>
              readField c_isArray source \<noteq> readField c_isArray target
        then typed [column_update source target]
      else Inr [])"

definition diffColumns :: "DatabaseColumn list \<Rightarrow> DatabaseColumn list \<Rightarrow> result" where
  "diffColumns sources targets =
     (let sourceMap = map (\<lambda>column. (c_name column, column)) sources;
          targetMap = map (\<lambda>column. (c_name column, column)) targets;
          keys = new_Set (Object_keys sourceMap @ Object_keys targetMap)
      in foldl (\<lambda>items key. pushAll items (diffColumn (get sourceMap key) (get targetMap key)))
           (Inr []) keys)"

definition diffPrimaryKeyConstraint :: "DatabaseConstraint jsval \<Rightarrow> DatabaseConstraint jsval \<Rightarrow> result" where
  "diffPrimaryKeyConstraint source target =
     (if \<not> haveEqualColumns (readOptional k_columnNames source) (readOptional k_columnNames target) \<or>
         readField k_tableName source \<noteq> readField k_tableName target
      then dropAndRecreateConstraint source target
      else Inr [])"

definition diffForeignKeyConstraint :: "DatabaseConstraint jsval \<Rightarrow> DatabaseConstraint jsval \<Rightarrow> result" where
  "diffForeignKeyConstraint source target =
     (if \<not> haveEqualColumns (readOptional k_columnNames source) (readOptional k_columnNames target) \<or>
         \<not> haveEqualColumns (readOptional k_referenceColumnNames source) (readOptional k_referenceColumnNames target) \<or>
         readField k_tableName source \<noteq> readField k_tableName target \<or>
         readOptional k_referenceTableName source \<noteq> readOptional k_referenceTableName target \<or>
         readOptional k_onDelete source \<noteq> readOptional k_onDelete target \<or>
         readOptional k_onUpdate source \<noteq> readOptional k_onUpdate target
      then dropAndRecreateConstraint source target
      else Inr [])"

definition diffUniqueConstraint :: "DatabaseConstraint jsval \<Rightarrow> DatabaseConstraint jsval \<Rightarrow> result" where
  "diffUniqueConstraint source target =
     (if haveEqualColumns (readOptional k_columnNames source) (readOptional k_columnNames target)
      then Inr []
      else dropAndRecreateConstraint source target)"

definition diffCheckConstraint :: "DatabaseConstraint jsval \<Rightarrow> DatabaseConstraint jsval \<Rightarrow> result" where
  "diffCheckConstraint source target =
     (if readOptional k_expression source = readOptional k_expression target
      then Inr []
      else dropAndRecreateConstraint source target)"

definition diffConstraint :: "DatabaseConstraint jsval \<Rightarrow> DatabaseConstraint jsval \<Rightarrow> result" where
  "diffConstraint source target =
     (if truthy source \<and> \<not> truthy target then typed [constraint_create source]
      else if \<not> truthy source \<and> truthy target then
        typed [constraint_delete (readField k_tableName target) (readName k_name target)]
      else if \<not> truthy source \<or> \<not> truthy target then Inr []
      else (case readField k_type source of
              Some PRIMARY_KEY \<Rightarrow> diffPrimaryKeyConstraint source target
            | Some FOREIGN_KEY \<Rightarrow> diffForeignKeyConstraint source target
            | Some UNIQUE \<Rightarrow> diffUniqueConstraint source target
            | Some CHECK \<Rightarrow> diffCheckConstraint source target
            | None \<Rightarrow> dropAndRecreateConstraint source target))"

definition diffConstraints :: "DatabaseConstraint list \<Rightarrow> DatabaseConstraint list \<Rightarrow> result" where
  "diffConstraints sources targets =
     foldl (\<lambda>items type.
        (let sourceMap = map (\<lambda>item. (k_name item, item)) (filter (\<lambda>item. k_type item = type) sources);
             targetMap = map (\<lambda>item. (k_name item, item)) (filter (\<lambda>item. k_type item = type) targets);
             keys = new_Set (Object_keys sourceMap @ Object_keys targetMap)
         in foldl (\<lambda>items key. pushAll items (diffConstraint (get sourceMap key) (get targetMap key)))
              items keys))
       (Inr []) DatabaseConstraintType_values"

definition diffIndex :: "DatabaseIndex jsval \<Rightarrow> DatabaseIndex jsval \<Rightarrow> result" where
  "diffIndex source target =
     (if truthy source \<and> \<not> truthy target then typed [index_create source]
      else if \<not> truthy source \<and> truthy target then typed [index_delete (readName i_name target)]
      else if \<not> truthy target \<or> \<not> truthy source then Inr []
      else if \<not> haveEqualColumns (readOptional i_columnNames source) (readOptional i_columnNames target) \<or>
              readOptional i_expression source \<noteq> readOptional i_expression target \<or>
              readOptional i_unique source \<noteq> readOptional i_unique target \<or>
              readOptional i_where source \<noteq> readOptional i_where target
        then dropAndRecreateIndex source target
      else Inr [])"

definition diffIndexes :: "DatabaseIndex list \<Rightarrow> DatabaseIndex list \<Rightarrow> result" where
  "diffIndexes sources targets =
     (let sourceMap = map (\<lambda>index. (i_name index, index)) sources;
          targetMap = map (\<lambda>index. (i_name index, index)) targets;
          keys = new_Set (Object_keys sourceMap @ Object_keys targetMap)
      in foldl (\<lambda>items key. pushAll items (diffIndex (get sourceMap key) (get targetMap key)))
           (Inr []) keys)"

text \<open>
  \<open>diffTable\<close>. A member of the prototype has no \<open>columns\<close>: \<open>Object.values(undefined)\<close> in
  the first branch and \<open>sources.map\<close> or \<open>targets.map\<close> in \<open>diffColumns\<close>, called from the last
  one, throw a \<open>TypeError\<close>.
\<close>

definition diffTable :: "DatabaseTable jsval \<Rightarrow> DatabaseTable jsval \<Rightarrow> result" where
  "diffTable source target =
     (if truthy source \<and> \<not> truthy target then
        (case source of
           Own s \<Rightarrow>
             pushAll (pushAll (Inr [TableCreate (t_name s) (t_columns s)])
                        (diffIndexes (t_indexes s) []))
               (diffConstraints (t_constraints s) [])
         | _ \<Rightarrow> Inl TypeError)
      else if \<not> truthy source \<and> truthy target then typed [table_delete (readName t_name target)]
      else if \<not> truthy source \<or> \<not> truthy target then Inr []
      else
        (case (source, target) of
           (Own s, Own t) \<Rightarrow>
             pushAll (pushAll (diffColumns (t_columns s) (t_columns t))
                        (diffConstraints (t_constraints s) (t_constraints t)))
               (diffIndexes (t_indexes s) (t_indexes t))
         | _ \<Rightarrow> Inl TypeError))"

definition diffTables :: "DatabaseTable list \<Rightarrow> DatabaseTable list \<Rightarrow> bool \<Rightarrow> result" where
  "diffTables sources targets ignoreExtraTables =
     (let sourceMap = map (\<lambda>table. (t_name table, table)) sources;
          targetMap = map (\<lambda>table. (t_name table, table)) targets;
          keys = new_Set (Object_keys sourceMap @ Object_keys targetMap)
      in foldl (\<lambda>items key.
            if ignoreExtraTables \<and> \<not> truthy (get sourceMap key) then items
            else pushAll items (diffTable (get sourceMap key) (get targetMap key)))
           (Inr []) keys)"

text \<open>The options object is \<open>{ ignoreExtraTables?: boolean }\<close>, \<open>{}\<close> when left out.\<close>

definition diff :: "DatabaseSchema \<Rightarrow> DatabaseSchema \<Rightarrow> bool option \<Rightarrow> result" where
  "diff source target ignoreExtraTables =
     diffTables (s_tables source) (s_tables target)
       (case ignoreExtraTables of Some b \<Rightarrow> b | None \<Rightarrow> True)"

section \<open>The DDL emitter (schema.service.ts, \<open>diffToSql\<close> and \<open>asSql\<close>)\<close>

definition dq :: string where
  "dq = [CHR 0x22]"

definition quoted :: "string \<Rightarrow> string" where
  "quoted s = dq @ s @ dq"

fun join :: "string \<Rightarrow> string list \<Rightarrow> string" where
  "join sep [] = []"
| "join sep [x] = x"
| "join sep (x # y # ys) = x @ sep @ join sep (y # ys)"

definition asColumnsNames :: "string list \<Rightarrow> string" where
  "asColumnsNames columns = join '', '' (map quoted (sort columns))"

definition withNull :: "DatabaseColumn \<Rightarrow> string" where
  "withNull column = (if c_nullable column then [] else '' NOT NULL'')"

text \<open>A string is truthy when it is defined and not empty.\<close>

fun truthyText :: "string option \<Rightarrow> bool" where
  "truthyText None = False"
| "truthyText (Some s) = (s \<noteq> [])"

definition withDefault :: "DatabaseColumn \<Rightarrow> string" where
  "withDefault column =
     (if truthyText (c_default column) then '' DEFAULT '' @ the (c_default column) else [])"

definition withAction :: "DatabaseActionType option \<Rightarrow> DatabaseActionType option \<Rightarrow> string" where
  "withAction onDelete onUpdate =
     (case onDelete of Some a \<Rightarrow> '' ON DELETE '' @ actionText a | None \<Rightarrow> []) @
     (case onUpdate of Some a \<Rightarrow> '' ON UPDATE '' @ actionText a | None \<Rightarrow> [])"

text \<open>\<open>asSql\<close> returns \<open>string | string[]\<close>.\<close>

datatype SqlResult = Statement string | Statements "string list"

fun asConstraintSql :: "DatabaseConstraint \<Rightarrow> SqlResult" where
  "asConstraintSql (PrimaryKey n t cs) =
     Statement (''ALTER TABLE '' @ quoted t @ '' ADD CONSTRAINT '' @ quoted n @
       '' PRIMARY KEY ('' @ asColumnsNames cs @ '');'')"
| "asConstraintSql (ForeignKey n t cs rt rcs u d) =
     Statement (''ALTER TABLE '' @ quoted t @ '' ADD CONSTRAINT '' @ quoted n @
       '' FOREIGN KEY ('' @ asColumnsNames cs @ '') REFERENCES '' @ quoted rt @
       '' ('' @ asColumnsNames rcs @ '')'' @ withAction d u @ '';'')"
| "asConstraintSql (Unique n t cs) =
     Statement (''ALTER TABLE '' @ quoted t @ '' ADD CONSTRAINT '' @ quoted n @
       '' UNIQUE ('' @ asColumnsNames cs @ '');'')"
| "asConstraintSql (Check n t e) =
     Statement (''ALTER TABLE '' @ quoted t @ '' ADD CONSTRAINT '' @ quoted n @
       '' CHECK ('' @ e @ '');'')"

definition columnSql :: "DatabaseColumn \<Rightarrow> string" where
  "columnSql column = quoted (c_name column) @ '' '' @ c_type column @ withNull column @ withDefault column"

definition indexSql :: "DatabaseIndex \<Rightarrow> string" where
  "indexSql index =
     ''CREATE'' @
     (if i_unique index = Some True then '' UNIQUE'' else []) @
     '' INDEX '' @ quoted (i_name index) @ '' ON '' @ quoted (i_tableName index) @
     (case i_columnNames index of Some cs \<Rightarrow> '' ('' @ asColumnsNames cs @ '')'' | None \<Rightarrow> []) @
     (if truthyText (i_using index) then '' USING '' @ the (i_using index) else []) @
     (if truthyText (i_expression index) then '' ('' @ the (i_expression index) @ '')'' else []) @
     (if truthyText (i_where index) then '' WHERE '' @ the (i_where index) else [])"

fun asSql :: "SchemaDiff \<Rightarrow> SqlResult" where
  "asSql (TableCreate tableName columns) =
     Statement (''CREATE TABLE '' @ quoted tableName @ '' ('' @ join '', '' (map columnSql columns) @ '');'')"
| "asSql (TableDelete tableName) = Statement (''DROP TABLE '' @ quoted tableName @ '';'')"
| "asSql (ColumnCreate column) =
     Statement (''ALTER TABLE '' @ quoted (c_tableName column) @ '' ADD '' @ quoted (c_name column) @
       '' '' @ c_type column @ withNull column @ withDefault column @ '';'')"
| "asSql (ColumnUpdate source target) =
     (if c_nullable source \<noteq> c_nullable target then
        (if c_nullable source
         then Statement (''ALTER TABLE '' @ quoted (c_tableName source) @ '' ALTER COLUMN '' @
                quoted (c_name source) @ '' DROP NOT NULL;'')
         else Statement (''ALTER TABLE '' @ quoted (c_tableName source) @ '' ALTER COLUMN '' @
                quoted (c_name source) @ '' SET NOT NULL;''))
      else Statements [])"
| "asSql (ColumnDelete tableName columnName) =
     Statement (''ALTER TABLE '' @ quoted tableName @ '' DROP COLUMN '' @ quoted columnName @ '';'')"
| "asSql (ConstraintCreate constraint) = asConstraintSql constraint"
| "asSql (ConstraintDelete tableName constraintName) =
     Statement (''ALTER TABLE '' @ quoted tableName @ '' DROP CONSTRAINT '' @ quoted constraintName @ '';'')"
| "asSql (IndexCreate index) = Statement (indexSql index)"
| "asSql (IndexDelete indexName) = Statement (''DROP INDEX '' @ quoted indexName @ '';'')"

definition diffToSql :: "SchemaDiff list \<Rightarrow> string list" where
  "diffToSql items =
     concat (map (\<lambda>item. case asSql item of Statements a \<Rightarrow> a | Statement s \<Rightarrow> [s]) items)"

section \<open>Constraint names (the decorators, \<open>asKey\<close> and \<open>sha1\<close>)\<close>

text \<open>
  \<open>sha1\<close> calls \<open>createHash('sha1').update(value).digest('hex')\<close> of node:crypto, which is
  not part of the repository: the string is encoded in UTF-8 and hashed with SHA-1 as
  FIPS 180-4 defines it, and the digest is written as forty lower-case hexadecimal digits.
  The functions \<open>utf8\<close> to \<open>sha1_hex\<close> write that out.
\<close>

definition utf8 :: "string \<Rightarrow> 8 word list" where
  "utf8 s =
     concat (map (\<lambda>c. let n = (of_char c :: nat)
                       in if n < 128 then [of_nat n]
                          else [of_nat (192 + n div 64), of_nat (128 + n mod 64)]) s)"

definition sha1_pad :: "8 word list \<Rightarrow> 8 word list" where
  "sha1_pad m =
     m @ [0x80] @ replicate ((119 - length m mod 64) mod 64) 0 @
     map (\<lambda>i. ucast (drop_bit (8 * i) (of_nat (8 * length m) :: 64 word))) [7, 6, 5, 4, 3, 2, 1, 0]"

fun sha1_words :: "8 word list \<Rightarrow> 32 word list" where
  "sha1_words (a # b # c # d # rest) =
     (push_bit 24 (ucast a) OR push_bit 16 (ucast b) OR push_bit 8 (ucast c) OR ucast d) # sha1_words rest"
| "sha1_words _ = []"

definition sha1_blocks :: "32 word list \<Rightarrow> 32 word list list" where
  "sha1_blocks ws = map (\<lambda>i. take 16 (drop (16 * i) ws)) [0 ..< length ws div 16]"

definition rotl :: "nat \<Rightarrow> 32 word \<Rightarrow> 32 word" where
  "rotl n w = push_bit n w OR drop_bit (32 - n) w"

definition sha1_schedule :: "32 word list \<Rightarrow> 32 word list" where
  "sha1_schedule block =
     fold (\<lambda>t w. w @ [rotl 1 (w ! (t - 3) XOR w ! (t - 8) XOR w ! (t - 14) XOR w ! (t - 16))])
       [16 ..< 80] block"

definition sha1_f :: "nat \<Rightarrow> 32 word \<Rightarrow> 32 word \<Rightarrow> 32 word \<Rightarrow> 32 word" where
  "sha1_f t b c d =
     (if t < 20 then (b AND c) OR (NOT b AND d)
      else if t < 40 then b XOR c XOR d
      else if t < 60 then (b AND c) OR (b AND d) OR (c AND d)
      else b XOR c XOR d)"

definition sha1_k :: "nat \<Rightarrow> 32 word" where
  "sha1_k t =
     (if t < 20 then 0x5A827999 else if t < 40 then 0x6ED9EBA1
      else if t < 60 then 0x8F1BBCDC else 0xCA62C1D6)"

type_synonym sha1_state = "32 word \<times> 32 word \<times> 32 word \<times> 32 word \<times> 32 word"

definition sha1_round :: "32 word list \<Rightarrow> nat \<Rightarrow> sha1_state \<Rightarrow> sha1_state" where
  "sha1_round w t s =
     (case s of (a, b, c, d, e) \<Rightarrow>
        (rotl 5 a + sha1_f t b c d + e + sha1_k t + w ! t, a, rotl 30 b, c, d))"

definition sha1_block :: "32 word list \<Rightarrow> sha1_state \<Rightarrow> sha1_state" where
  "sha1_block block h =
     (case (h, fold (sha1_round (sha1_schedule block)) [0 ..< 80] h) of
        ((h0, h1, h2, h3, h4), (a, b, c, d, e)) \<Rightarrow> (h0 + a, h1 + b, h2 + c, h3 + d, h4 + e))"

definition sha1_init :: sha1_state where
  "sha1_init = (0x67452301, 0xEFCDAB89, 0x98BADCFE, 0x10325476, 0xC3D2E1F0)"

definition hexDigit :: "nat \<Rightarrow> char" where
  "hexDigit n = ''0123456789abcdef'' ! (n mod 16)"

definition hex32 :: "32 word \<Rightarrow> string" where
  "hex32 w = map (\<lambda>i. hexDigit (unat (drop_bit (4 * i) w AND 15))) [7, 6, 5, 4, 3, 2, 1, 0]"

definition sha1_hex :: "sha1_state \<Rightarrow> string" where
  "sha1_hex h = (case h of (h0, h1, h2, h3, h4) \<Rightarrow> concat (map hex32 [h0, h1, h2, h3, h4]))"

definition sha1 :: "string \<Rightarrow> string" where
  "sha1 v = sha1_hex (fold sha1_block (sha1_blocks (sha1_words (sha1_pad (utf8 v)))) sha1_init)"

text \<open>\<open>asKey\<close> and its three callers, as the decorators file has them.\<close>

definition asKey :: "string \<Rightarrow> string \<Rightarrow> string list \<Rightarrow> string" where
  "asKey prefix tableName columnNames =
     take 30 (prefix @ sha1 (tableName @ ''_'' @ join ''_'' (sort columnNames)))"

definition asPrimaryKeyConstraintName :: "string \<Rightarrow> string list \<Rightarrow> string" where
  "asPrimaryKeyConstraintName tableName columnNames = asKey ''PK_'' tableName columnNames"

definition asUniqueConstraintName :: "string \<Rightarrow> string list \<Rightarrow> string" where
  "asUniqueConstraintName tableName columnNames = asKey ''UQ_'' tableName columnNames"

definition asForeignKeyConstraintName :: "string \<Rightarrow> string list \<Rightarrow> string" where
  "asForeignKeyConstraintName tableName columnNames = asKey ''FK_'' tableName columnNames"

definition isHexDigit :: "char \<Rightarrow> bool" where
  "isHexDigit c = (c \<in> set ''0123456789abcdef'')"

section \<open>The two producers of a column\<close>






section \<open>Fixtures of the test suite\<close>

text \<open>The column \<open>Column1\<close> of \<open>Table1\<close> and the index \<open>IDX_1\<close> that the tests of the service use.\<close>

definition column1 :: "bool \<Rightarrow> DatabaseColumn" where
  "column1 nullable =
     \<lparr>c_primary = None, c_name = ''Column1'', c_tableName = ''Table1'',
      c_type = ''character varying'', c_nullable = nullable, c_isArray = False,
      c_default = None, c_values = None, c_numericPrecision = None, c_numericScale = None\<rparr>"

definition index1 :: "string option \<Rightarrow> DatabaseIndex" where
  "index1 w =
     \<lparr>i_name = ''IDX_1'', i_tableName = ''Table1'', i_columnNames = Some [''Column1''],
      i_expression = None, i_unique = Some True, i_using = None, i_where = w\<rparr>"

fun isIndexCreate :: "SchemaDiff \<Rightarrow> bool" where
  "isIndexCreate (IndexCreate index) = True"
| "isIndexCreate _ = False"

text \<open>Whether an optional text of an index is present and ends with a semicolon.\<close>

fun endsWithSemicolon :: "string option \<Rightarrow> bool" where
  "endsWithSemicolon None = False"
| "endsWithSemicolon (Some text) = (if text = [] then False else last text = CHR '';'')"

text \<open>A schema named \<open>public\<close>, as \<open>newSchema\<close> of the test suite builds it, a table
  with columns only, and a table with one constraint of each kind and an index.\<close>

definition newSchema :: "DatabaseTable list \<Rightarrow> DatabaseSchema" where
  "newSchema tables = \<lparr>s_name = ''public'', s_tables = tables\<rparr>"

definition tableWith :: "string \<Rightarrow> DatabaseColumn list \<Rightarrow> DatabaseTable" where
  "tableWith tableName columns =
     \<lparr>t_name = tableName, t_columns = columns, t_indexes = [], t_constraints = []\<rparr>"

definition table1 :: DatabaseTable where
  "table1 =
     \<lparr>t_name = ''Table1'', t_columns = [column1 False], t_indexes = [index1 None],
      t_constraints =
        [PrimaryKey ''PK_1'' ''Table1'' [''Column1''],
         ForeignKey ''FK_1'' ''Table1'' [''Column1''] ''Table2'' [''Column2''] (Some CASCADE) (Some NO_ACTION),
         Unique ''UQ_1'' ''Table1'' [''Column1'', ''Column2''],
         Check ''CHK_1'' ''Table1'' ''1 = 1'']\<rparr>"

text \<open>A desired state of \<open>Table1\<close>: the column has another type, a second column is
  new, the foreign key has another \<open>onDelete\<close>, the unique constraint lists its columns in
  another order, and the index has a predicate.\<close>

definition table1_desired :: DatabaseTable where
  "table1_desired =
     \<lparr>t_name = ''Table1'',
      t_columns = [(column1 False)\<lparr>c_type := ''text''\<rparr>, (column1 True)\<lparr>c_name := ''Column2''\<rparr>],
      t_indexes = [index1 (Some ''active'')],
      t_constraints =
        [PrimaryKey ''PK_1'' ''Table1'' [''Column1''],
         ForeignKey ''FK_1'' ''Table1'' [''Column1''] ''Table2'' [''Column2''] (Some CASCADE) (Some CASCADE),
         Unique ''UQ_1'' ''Table1'' [''Column2'', ''Column1''],
         Check ''CHK_1'' ''Table1'' ''1 = 1'']\<rparr>"





section \<open>Properties of the emitter\<close>

lemma diffToSql_append: "diffToSql (xs @ ys) = diffToSql xs @ diffToSql ys"
  by (simp add: diffToSql_def)

lemma diffToSql_single:
  "diffToSql [item] = (case asSql item of Statements a \<Rightarrow> a | Statement s \<Rightarrow> [s])"
  by (simp add: diffToSql_def)

text \<open>
  C2. A \<open>column.update\<close> change yields SQL only on a nullability transition: source nullable
  and target not gives the single statement \<open>ALTER TABLE "T" ALTER COLUMN "C" DROP NOT NULL;\<close>,
  source not nullable and target nullable gives \<open>... SET NOT NULL;\<close> (table and column name
  read from the source column), and with equal nullability the change adds nothing to the
  output of \<open>diffToSql\<close>, whatever else differs.
\<close>

theorem column_update_sql:
  "(c_nullable source \<and> \<not> c_nullable target \<longrightarrow>
      diffToSql [ColumnUpdate source target] =
        [''ALTER TABLE '' @ dq @ c_tableName source @ dq @ '' ALTER COLUMN '' @ dq @ c_name source @ dq @
         '' DROP NOT NULL;'']) \<and>
   (\<not> c_nullable source \<and> c_nullable target \<longrightarrow>
      diffToSql [ColumnUpdate source target] =
        [''ALTER TABLE '' @ dq @ c_tableName source @ dq @ '' ALTER COLUMN '' @ dq @ c_name source @ dq @
         '' SET NOT NULL;'']) \<and>
   (c_nullable source = c_nullable target \<longrightarrow>
      diffToSql (before @ ColumnUpdate source target # after) = diffToSql before @ diffToSql after)"
  by (simp add: diffToSql_def quoted_def)

theorem column_update_sql_witness:
  "diffToSql [ColumnUpdate (column1 True) (column1 False)] =
     [''ALTER TABLE '' @ dq @ ''Table1'' @ dq @ '' ALTER COLUMN '' @ dq @ ''Column1'' @ dq @ '' DROP NOT NULL;''] \<and>
   diffToSql [ColumnUpdate (column1 False) (column1 True)] =
     [''ALTER TABLE '' @ dq @ ''Table1'' @ dq @ '' ALTER COLUMN '' @ dq @ ''Column1'' @ dq @ '' SET NOT NULL;''] \<and>
   diffToSql ([TableDelete ''Table1''] @
       ColumnUpdate (column1 True)
         ((column1 True)\<lparr>c_type := ''text'', c_default := Some ''0'', c_isArray := True, c_primary := Some True\<rparr>) #
       [TableDelete ''Table2'']) =
     diffToSql [TableDelete ''Table1''] @ diffToSql [TableDelete ''Table2'']"
  using column_update_sql [of "column1 True" "column1 False"]
    column_update_sql [of "column1 False" "column1 True"]
    column_update_sql [of "column1 True"
      "(column1 True)\<lparr>c_type := ''text'', c_default := Some ''0'', c_isArray := True, c_primary := Some True\<rparr>"
      "[TableDelete ''Table1'']" "[TableDelete ''Table2'']"]
  by (simp add: column1_def)

lemma quoted_fun: "quoted = (\<lambda>c. dq @ c @ dq)"
  by (simp add: fun_eq_iff quoted_def)

text \<open>
  C8. The statement for a \<open>constraint.create\<close> change with a foreign key is exactly
  \<open>ALTER TABLE "T" ADD CONSTRAINT "N" FOREIGN KEY (cols) REFERENCES "RT" (refCols)\<close>, then
  \<open> ON DELETE a\<close> when \<open>onDelete\<close> is present, then \<open> ON UPDATE a\<close> when \<open>onUpdate\<close> is present,
  then \<open>;\<close>. Both column lists are sorted, each name is put in double quotes and the names are
  joined with a comma and a space.
\<close>

theorem foreign_key_sql:
  "diffToSql [ConstraintCreate (ForeignKey n t cs rt rcs u d)] =
     [''ALTER TABLE '' @ dq @ t @ dq @ '' ADD CONSTRAINT '' @ dq @ n @ dq @
      '' FOREIGN KEY ('' @ join '', '' (map (\<lambda>c. dq @ c @ dq) (sort cs)) @
      '') REFERENCES '' @ dq @ rt @ dq @
      '' ('' @ join '', '' (map (\<lambda>c. dq @ c @ dq) (sort rcs)) @ '')'' @
      (case d of None \<Rightarrow> [] | Some a \<Rightarrow> '' ON DELETE '' @ actionText a) @
      (case u of None \<Rightarrow> [] | Some a \<Rightarrow> '' ON UPDATE '' @ actionText a) @
      '';''] \<and>
   sorted (sort cs) \<and> mset (sort cs) = mset cs \<and> sorted (sort rcs) \<and> mset (sort rcs) = mset rcs"
  by (simp add: diffToSql_def quoted_fun asColumnsNames_def withAction_def)

theorem foreign_key_sql_witness:
  "diffToSql [ConstraintCreate (ForeignKey ''FK_1'' ''Table1'' [''Column2'', ''Column1''] ''Table2'' [''b'', ''a'']
       (Some CASCADE) (Some NO_ACTION))] =
     [''ALTER TABLE '' @ dq @ ''Table1'' @ dq @ '' ADD CONSTRAINT '' @ dq @ ''FK_1'' @ dq @
      '' FOREIGN KEY ('' @ dq @ ''Column1'' @ dq @ '', '' @ dq @ ''Column2'' @ dq @
      '') REFERENCES '' @ dq @ ''Table2'' @ dq @ '' ('' @ dq @ ''a'' @ dq @ '', '' @ dq @ ''b'' @ dq @
      '') ON DELETE NO ACTION ON UPDATE CASCADE;'']"
proof -
  have s1: "sort [''Column2'', ''Column1''] = [''Column1'', ''Column2'']" by code_simp
  have s2: "sort [''b'', ''a''] = [''a'', ''b'']" by code_simp
  show ?thesis
    using foreign_key_sql [of "''FK_1''" "''Table1''" "[''Column2'', ''Column1'']" "''Table2''" "[''b'', ''a'']"
      "Some CASCADE" "Some NO_ACTION"]
    by (simp add: s1 s2)
qed

lemma indexSql_last:
  "last (indexSql index) = CHR '';'' \<longleftrightarrow>
     (if truthyText (i_where index) then last (the (i_where index)) = CHR '';''
      else if truthyText (i_expression index) then False
      else if truthyText (i_using index) then last (the (i_using index)) = CHR '';''
      else False)"
  by (cases "i_where index"; cases "i_expression index"; cases "i_using index"; cases "i_columnNames index")
     (simp_all add: indexSql_def quoted_def dq_def)

lemma indexSql_not_empty: "indexSql index \<noteq> []"
  by (simp add: indexSql_def)

text \<open>
  C9. Semicolon asymmetry: the emitter puts no semicolon at the end of the statement for an
  \<open>index.create\<close> change, so that statement, built from an index whose own \<open>where\<close> and
  \<open>using\<close> texts do not end with one, never ends with a semicolon; the statement produced
  for every other change kind always ends with one, and the only change that produces no
  statement is a \<open>column.update\<close> between columns of equal nullability.
\<close>

theorem statement_terminator:
  "(asSql item = Statement s \<and> \<not> isIndexCreate item \<longrightarrow> s \<noteq> [] \<and> last s = CHR '';'') \<and>
   (asSql item = Statements a \<longrightarrow>
      a = [] \<and> (\<exists>source target. item = ColumnUpdate source target \<and> c_nullable source = c_nullable target)) \<and>
   asSql (IndexCreate index) = Statement (indexSql index) \<and>
   diffToSql [IndexCreate index] = [indexSql index] \<and>
   (\<not> endsWithSemicolon (i_where index) \<and> \<not> endsWithSemicolon (i_using index) \<longrightarrow>
      indexSql index \<noteq> [] \<and> last (indexSql index) \<noteq> CHR '';'')"
proof -
  have a: "asSql item = Statement s \<and> \<not> isIndexCreate item \<longrightarrow> s \<noteq> [] \<and> last s = CHR '';''"
  proof (cases item)
    case (ConstraintCreate k)
    then show ?thesis by (cases k) auto
  qed (auto split: if_splits)
  have b: "\<not> endsWithSemicolon (i_where index) \<and> \<not> endsWithSemicolon (i_using index) \<longrightarrow>
      indexSql index \<noteq> [] \<and> last (indexSql index) \<noteq> CHR '';''"
    by (cases "i_where index"; cases "i_using index")
       (auto simp: indexSql_last indexSql_not_empty split: if_splits)
  have c: "asSql item = Statements a \<longrightarrow>
      a = [] \<and> (\<exists>source target. item = ColumnUpdate source target \<and> c_nullable source = c_nullable target)"
  proof (cases item)
    case (ConstraintCreate k)
    then show ?thesis by (cases k) auto
  qed (auto split: if_splits)
  from a b c show ?thesis by (simp add: diffToSql_def)
qed

theorem statement_terminator_witness:
  "asSql (ColumnDelete ''Table1'' ''Column1'') =
     Statement (''ALTER TABLE '' @ dq @ ''Table1'' @ dq @ '' DROP COLUMN '' @ dq @ ''Column1'' @ dq @ '';'') \<and>
   \<not> isIndexCreate (ColumnDelete ''Table1'' ''Column1'') \<and>
   last (''ALTER TABLE '' @ dq @ ''Table1'' @ dq @ '' DROP COLUMN '' @ dq @ ''Column1'' @ dq @ '';'') = CHR '';'' \<and>
   asSql (ColumnUpdate (column1 True) (column1 True)) = Statements [] \<and>
   \<not> endsWithSemicolon (i_where (index1 (Some ''active''))) \<and>
   \<not> endsWithSemicolon (i_using (index1 (Some ''active''))) \<and>
   diffToSql [IndexCreate (index1 (Some ''active''))] =
     [''CREATE UNIQUE INDEX '' @ dq @ ''IDX_1'' @ dq @ '' ON '' @ dq @ ''Table1'' @ dq @
      '' ('' @ dq @ ''Column1'' @ dq @ '') WHERE active''] \<and>
   last (indexSql (index1 (Some ''active''))) \<noteq> CHR '';'' \<and>
   diffToSql [IndexCreate (index1 None)] =
     [''CREATE UNIQUE INDEX '' @ dq @ ''IDX_1'' @ dq @ '' ON '' @ dq @ ''Table1'' @ dq @
      '' ('' @ dq @ ''Column1'' @ dq @ '')''] \<and>
   last (indexSql (index1 None)) \<noteq> CHR '';''"
  using statement_terminator [where item = "ColumnDelete ''Table1'' ''Column1''"
      and s = "''ALTER TABLE '' @ dq @ ''Table1'' @ dq @ '' DROP COLUMN '' @ dq @ ''Column1'' @ dq @ '';''"
      and index = "index1 None"]
    statement_terminator [where item = "ColumnUpdate (column1 True) (column1 True)"
      and a = "[]" and index = "index1 (Some ''active'')"]
  by (simp add: index1_def quoted_def indexSql_def asColumnsNames_def)

section \<open>Properties of the diff engine\<close>

subsection \<open>Evaluation on values of the declared types\<close>

lemma typed_simps [simp]:
  "typed [] = Inr []"
  "typed [Some a] = Inr [a]"
  "typed [Some a, Some b] = Inr [a, b]"
  "typed (None # ys) = Inl IllTyped"
  by (simp_all add: typed_def)

lemma typed_second_None [simp]: "typed [x, None] = Inl IllTyped"
  by (cases x) (simp_all add: typed_def)



lemma pushAll_Nil [simp]: "pushAll (Inr []) r = r"
proof (cases r)
  case (Inl e)
  then show ?thesis by (cases e) simp_all
next
  case (Inr ys)
  then show ?thesis by simp
qed

lemma set_uniq [simp]: "set (uniq xs) = set xs"
  by (simp add: uniq_def)

lemma uniq_small [simp]: "uniq [] = []" "uniq [x] = [x]" "uniq [x, x] = [x]"
  by (simp_all add: uniq_def)

lemma Object_keys_Nil [simp]: "Object_keys [] = []"
  by (simp add: Object_keys_def)

lemma Object_keys_single [simp]: "Object_keys [(k, v)] = [k]"
  by (simp add: Object_keys_def)

lemma set_Object_keys [simp]: "set (Object_keys obj) = fst ` set obj"
  by (auto simp: Object_keys_def Let_def)

lemma get_single [simp]: "get [(k, v)] k = Own v"
  by (simp add: get_def)

lemma get_Own: "k \<in> fst ` set obj \<Longrightarrow> \<exists>v. get obj k = Own v"
proof -
  assume "k \<in> fst ` set obj"
  then have "k \<in> fst ` set (rev obj)" by simp
  then have "map_of (rev obj) k \<noteq> None" by (simp only: map_of_eq_None_iff not_not)
  then show ?thesis by (auto simp: get_def)
qed

lemma haveEqualColumns_refl [simp]: "haveEqualColumns c c"
  by (simp add: haveEqualColumns_def setIsEqual_def)

lemma haveEqualColumns_Some:
  "haveEqualColumns (Some cs) (Some cs') \<longleftrightarrow> set cs = set cs'"
  by (simp add: haveEqualColumns_def setIsEqual_def new_Set_def)

lemma diffColumn_Own:
  "diffColumn (Own s) (Own t) =
     Inr (if c_type s \<noteq> c_type t then [ColumnDelete (c_tableName t) (c_name t), ColumnCreate s]
          else if c_nullable s \<noteq> c_nullable t \<or> c_primary s \<noteq> c_primary t \<or>
                  c_default s \<noteq> c_default t \<or> c_isArray s \<noteq> c_isArray t
            then [ColumnUpdate s t]
          else [])"
  by (simp add: diffColumn_def dropAndRecreateColumn_def)

lemma diffConstraint_Own:
  "diffConstraint (Own s) (Own t) =
     (case k_type s of
        PRIMARY_KEY \<Rightarrow> diffPrimaryKeyConstraint (Own s) (Own t)
      | FOREIGN_KEY \<Rightarrow> diffForeignKeyConstraint (Own s) (Own t)
      | UNIQUE \<Rightarrow> diffUniqueConstraint (Own s) (Own t)
      | CHECK \<Rightarrow> diffCheckConstraint (Own s) (Own t))"
  by (simp add: diffConstraint_def)

lemma dropAndRecreateConstraint_Own:
  "dropAndRecreateConstraint (Own s) (Own t) =
     Inr [ConstraintDelete (k_tableName t) (k_name t), ConstraintCreate s]"
  by (simp add: dropAndRecreateConstraint_def)

lemma diffIndex_Own:
  "diffIndex (Own s) (Own t) =
     Inr (if \<not> haveEqualColumns (i_columnNames s) (i_columnNames t) \<or>
             i_expression s \<noteq> i_expression t \<or> i_unique s \<noteq> i_unique t \<or> i_where s \<noteq> i_where t
          then [IndexDelete (i_name t), IndexCreate s] else [])"
  by (simp add: diffIndex_def dropAndRecreateIndex_def)


lemma diffIndexes_single:
  "i_name s = i_name t \<Longrightarrow> diffIndexes [s] [t] = diffIndex (Own s) (Own t)"
  by (simp add: diffIndexes_def new_Set_def)

lemma diffConstraints_single:
  "k_name s = k_name t \<Longrightarrow> k_type s = k_type t \<Longrightarrow>
   diffConstraints [s] [t] = diffConstraint (Own s) (Own t)"
  by (cases "k_type t")
     (simp_all add: diffConstraints_def DatabaseConstraintType_values_def new_Set_def)

subsection \<open>A schema against itself\<close>

lemma foldl_pushAll_empty:
  "(\<And>k. k \<in> set ks \<Longrightarrow> f k = Inr []) \<Longrightarrow>
   foldl (\<lambda>items k. pushAll items (f k)) (Inr []) ks = Inr []"
  by (induction ks) simp_all

lemma foldl_same_empty:
  assumes "\<And>v. d (Own v) (Own v) = Inr []"
  shows "foldl (\<lambda>items key. pushAll items (d (get obj key) (get obj key))) (Inr [])
           (uniq (Object_keys obj @ Object_keys obj)) = Inr []"
proof (rule foldl_pushAll_empty)
  fix k
  assume "k \<in> set (uniq (Object_keys obj @ Object_keys obj))"
  then have "k \<in> fst ` set obj" by simp
  then obtain v where "get obj k = Own v" using get_Own by blast
  then show "d (get obj k) (get obj k) = Inr []" by (simp add: assms)
qed

lemma diffColumn_same [simp]: "diffColumn (Own c) (Own c) = Inr []"
  by (simp add: diffColumn_Own)

lemma diffConstraint_same [simp]: "diffConstraint (Own c) (Own c) = Inr []"
  by (cases c)
     (simp_all add: diffConstraint_Own diffPrimaryKeyConstraint_def diffForeignKeyConstraint_def
        diffUniqueConstraint_def diffCheckConstraint_def)

lemma diffIndex_same [simp]: "diffIndex (Own i) (Own i) = Inr []"
  by (simp add: diffIndex_Own)

lemma diffColumns_same [simp]: "diffColumns cs cs = Inr []"
  unfolding diffColumns_def Let_def new_Set_def
  by (rule foldl_same_empty) simp

lemma diffIndexes_same [simp]: "diffIndexes is is = Inr []"
  unfolding diffIndexes_def Let_def new_Set_def
  by (rule foldl_same_empty) simp

lemma diffConstraints_same [simp]: "diffConstraints ks ks = Inr []"
  by (simp add: diffConstraints_def DatabaseConstraintType_values_def Let_def new_Set_def
        foldl_same_empty)

lemma diffTable_same [simp]: "diffTable (Own t) (Own t) = Inr []"
  by (simp add: diffTable_def)

lemma diffTables_same: "diffTables ts ts False = Inr []"
  unfolding diffTables_def Let_def new_Set_def
  by simp (rule foldl_same_empty, simp)

text \<open>
  C1. Stability under self-diff: for every schema \<open>S\<close>, \<open>diff(S, S, {ignoreExtraTables: false})\<close>
  returns the empty list of changes.
\<close>

theorem self_diff_empty: "diff S S (Some False) = Inr []"
  by (simp add: diff_def diffTables_same)

theorem self_diff_empty_witness: "diff (newSchema [table1]) (newSchema [table1]) (Some False) = Inr []"
  using self_diff_empty [of "newSchema [table1]"] by simp

text \<open>
  C4. Column lists are compared as sets: two primary-key, unique or foreign-key constraints,
  or two indexes, with the same name, that differ only in the order of their \<open>columnNames\<close>
  (and, for a foreign key, of their \<open>referenceColumnNames\<close>) give no change, for the pair
  itself and for the lists and the table that hold it.
\<close>

theorem reordered_columns_no_change:
  "mset cs = mset cs' \<and> mset rcs = mset rcs' \<longrightarrow>
     diffConstraint (Own (PrimaryKey n t cs)) (Own (PrimaryKey n t cs')) = Inr [] \<and>
     diffConstraint (Own (Unique n t cs)) (Own (Unique n t cs')) = Inr [] \<and>
     diffConstraint (Own (ForeignKey n t cs rt rcs u d)) (Own (ForeignKey n t cs' rt rcs' u d)) = Inr [] \<and>
     diffIndex (Own (index\<lparr>i_columnNames := Some cs\<rparr>)) (Own (index\<lparr>i_columnNames := Some cs'\<rparr>)) = Inr [] \<and>
     diffConstraints [PrimaryKey n t cs] [PrimaryKey n t cs'] = Inr [] \<and>
     diffConstraints [Unique n t cs] [Unique n t cs'] = Inr [] \<and>
     diffConstraints [ForeignKey n t cs rt rcs u d] [ForeignKey n t cs' rt rcs' u d] = Inr [] \<and>
     diffIndexes [index\<lparr>i_columnNames := Some cs\<rparr>] [index\<lparr>i_columnNames := Some cs'\<rparr>] = Inr [] \<and>
     diff (newSchema [\<lparr>t_name = t, t_columns = columns,
                        t_indexes = [index\<lparr>i_columnNames := Some cs\<rparr>],
                        t_constraints = [ForeignKey n t cs rt rcs u d]\<rparr>])
          (newSchema [\<lparr>t_name = t, t_columns = columns,
                        t_indexes = [index\<lparr>i_columnNames := Some cs'\<rparr>],
                        t_constraints = [ForeignKey n t cs' rt rcs' u d]\<rparr>]) options = Inr []"
proof
  assume "mset cs = mset cs' \<and> mset rcs = mset rcs'"
  then have sets: "set cs = set cs'" "set rcs = set rcs'"
    by (auto dest: mset_eq_setD)
  have pk: "diffConstraint (Own (PrimaryKey n t cs)) (Own (PrimaryKey n t cs')) = Inr []"
    by (simp add: diffConstraint_Own diffPrimaryKeyConstraint_def haveEqualColumns_Some sets)
  have uq: "diffConstraint (Own (Unique n t cs)) (Own (Unique n t cs')) = Inr []"
    by (simp add: diffConstraint_Own diffUniqueConstraint_def haveEqualColumns_Some sets)
  have fk: "diffConstraint (Own (ForeignKey n t cs rt rcs u d)) (Own (ForeignKey n t cs' rt rcs' u d)) = Inr []"
    by (simp add: diffConstraint_Own diffForeignKeyConstraint_def haveEqualColumns_Some sets)
  have ix: "diffIndex (Own (index\<lparr>i_columnNames := Some cs\<rparr>)) (Own (index\<lparr>i_columnNames := Some cs'\<rparr>)) = Inr []"
    by (simp add: diffIndex_Own haveEqualColumns_Some sets)
  have pks: "diffConstraints [PrimaryKey n t cs] [PrimaryKey n t cs'] = Inr []"
    by (simp add: diffConstraints_single pk)
  have uqs: "diffConstraints [Unique n t cs] [Unique n t cs'] = Inr []"
    by (simp add: diffConstraints_single uq)
  have fks: "diffConstraints [ForeignKey n t cs rt rcs u d] [ForeignKey n t cs' rt rcs' u d] = Inr []"
    by (simp add: diffConstraints_single fk)
  have ixs: "diffIndexes [index\<lparr>i_columnNames := Some cs\<rparr>] [index\<lparr>i_columnNames := Some cs'\<rparr>] = Inr []"
    by (simp add: diffIndexes_single ix)
  have whole: "diff (newSchema [\<lparr>t_name = t, t_columns = columns,
                        t_indexes = [index\<lparr>i_columnNames := Some cs\<rparr>],
                        t_constraints = [ForeignKey n t cs rt rcs u d]\<rparr>])
          (newSchema [\<lparr>t_name = t, t_columns = columns,
                        t_indexes = [index\<lparr>i_columnNames := Some cs'\<rparr>],
                        t_constraints = [ForeignKey n t cs' rt rcs' u d]\<rparr>]) options = Inr []"
    by (simp add: diff_def newSchema_def diffTables_def new_Set_def diffTable_def fks ixs)
  from pk uq fk ix pks uqs fks ixs whole
  show "diffConstraint (Own (PrimaryKey n t cs)) (Own (PrimaryKey n t cs')) = Inr [] \<and>
     diffConstraint (Own (Unique n t cs)) (Own (Unique n t cs')) = Inr [] \<and>
     diffConstraint (Own (ForeignKey n t cs rt rcs u d)) (Own (ForeignKey n t cs' rt rcs' u d)) = Inr [] \<and>
     diffIndex (Own (index\<lparr>i_columnNames := Some cs\<rparr>)) (Own (index\<lparr>i_columnNames := Some cs'\<rparr>)) = Inr [] \<and>
     diffConstraints [PrimaryKey n t cs] [PrimaryKey n t cs'] = Inr [] \<and>
     diffConstraints [Unique n t cs] [Unique n t cs'] = Inr [] \<and>
     diffConstraints [ForeignKey n t cs rt rcs u d] [ForeignKey n t cs' rt rcs' u d] = Inr [] \<and>
     diffIndexes [index\<lparr>i_columnNames := Some cs\<rparr>] [index\<lparr>i_columnNames := Some cs'\<rparr>] = Inr [] \<and>
     diff (newSchema [\<lparr>t_name = t, t_columns = columns,
                        t_indexes = [index\<lparr>i_columnNames := Some cs\<rparr>],
                        t_constraints = [ForeignKey n t cs rt rcs u d]\<rparr>])
          (newSchema [\<lparr>t_name = t, t_columns = columns,
                        t_indexes = [index\<lparr>i_columnNames := Some cs'\<rparr>],
                        t_constraints = [ForeignKey n t cs' rt rcs' u d]\<rparr>]) options = Inr []"
    by simp
qed

theorem reordered_columns_no_change_witness:
  "mset [''Column2'', ''Column1''] = mset [''Column1'', ''Column2''] \<and>
   mset [''b'', ''a''] = mset [''a'', ''b''] \<and>
   diffConstraints [PrimaryKey ''PK_1'' ''Table1'' [''Column2'', ''Column1'']]
                   [PrimaryKey ''PK_1'' ''Table1'' [''Column1'', ''Column2'']] = Inr [] \<and>
   diffConstraints [Unique ''PK_1'' ''Table1'' [''Column2'', ''Column1'']]
                   [Unique ''PK_1'' ''Table1'' [''Column1'', ''Column2'']] = Inr [] \<and>
   diffConstraints
     [ForeignKey ''PK_1'' ''Table1'' [''Column2'', ''Column1''] ''Table2'' [''b'', ''a''] (Some CASCADE) None]
     [ForeignKey ''PK_1'' ''Table1'' [''Column1'', ''Column2''] ''Table2'' [''a'', ''b''] (Some CASCADE) None] = Inr [] \<and>
   diffIndexes [(index1 None)\<lparr>i_columnNames := Some [''Column2'', ''Column1'']\<rparr>]
               [(index1 None)\<lparr>i_columnNames := Some [''Column1'', ''Column2'']\<rparr>] = Inr []"
  using reordered_columns_no_change [of "[''Column2'', ''Column1'']" "[''Column1'', ''Column2'']"
      "[''b'', ''a'']" "[''a'', ''b'']" "''PK_1''" "''Table1''" "''Table2''" "Some CASCADE" None "index1 None"]
  by simp

subsection \<open>Extra tables\<close>

lemma get_Nil: "get [] key = (case map_of objectPrototype key of Some n \<Rightarrow> Inherited n | None \<Rightarrow> Undefined)"
  by (simp add: get_def)

text \<open>For a table whose name is not the name of a member of \<open>Object.prototype\<close>, the
  differ does what the tests expect of it.\<close>

lemma extra_table_ordinary_name:
  assumes "map_of objectPrototype (t_name T1) = None"
  shows "diff (newSchema []) (newSchema [T1]) (Some True) = Inr []"
    and "diff (newSchema []) (newSchema [T1]) (Some False) = Inr [TableDelete (t_name T1)]"
    and "diff (newSchema []) (newSchema [T1]) None = Inr []"
  using assms
  by (simp_all add: diff_def newSchema_def diffTables_def new_Set_def diffTable_def get_Nil)

text \<open>For a table whose name is the name of a member of \<open>Object.prototype\<close>, the run
  ends in a \<open>TypeError\<close>, whatever the option.\<close>

lemma extra_table_prototype_name:
  assumes "map_of objectPrototype (t_name T1) = Some n"
  shows "diff (newSchema []) (newSchema [T1]) options = Inl TypeError"
  using assms
  by (cases options)
     (simp_all add: diff_def newSchema_def diffTables_def new_Set_def diffTable_def get_Nil)

text \<open>
  C5. \<open>diff\<close> of an empty source against a target that holds one table \<open>T1\<close> should return
  the empty list when \<open>ignoreExtraTables\<close> is true or left out, and the single change
  \<open>table.delete\<close> of \<open>T1\<close> when it is false. The code does so for the table \<open>Table1\<close> of the
  tests, but for a table named \<open>constructor\<close> the read \<open>sourceMap[key]\<close> yields the function
  that every object inherits under that name: the table is neither skipped nor deleted, and
  \<open>diffTable\<close> throws a \<open>TypeError\<close>, with either value of the option.
\<close>

theorem extra_table_named_constructor:
  "diff (newSchema []) (newSchema [tableWith ''constructor'' [column1 False]]) (Some True) = Inl TypeError \<and>
   diff (newSchema []) (newSchema [tableWith ''constructor'' [column1 False]]) (Some False) = Inl TypeError \<and>
   diff (newSchema []) (newSchema [tableWith ''constructor'' [column1 False]]) None = Inl TypeError \<and>
   diff (newSchema []) (newSchema [tableWith ''Table1'' [column1 False]]) (Some True) = Inr [] \<and>
   diff (newSchema []) (newSchema [tableWith ''Table1'' [column1 False]]) (Some False) = Inr [TableDelete ''Table1''] \<and>
   diff (newSchema []) (newSchema [tableWith ''Table1'' [column1 False]]) None = Inr []"
  by (simp add: diff_def newSchema_def tableWith_def diffTables_def new_Set_def diffTable_def get_Nil
        objectPrototype_def)

subsection \<open>Columns\<close>





subsection \<open>Drop and recreate\<close>















subsection \<open>A run of the whole differ\<close>

text \<open>The changes come table by table, and for a table its columns first, then its
  constraints, kind by kind, then its indexes; each delete stands right before its create.\<close>

lemma diff_table1_desired:
  "diff (newSchema [table1_desired]) (newSchema [table1]) None =
     Inr [ColumnDelete ''Table1'' ''Column1'',
          ColumnCreate ((column1 False)\<lparr>c_type := ''text''\<rparr>),
          ColumnCreate ((column1 True)\<lparr>c_name := ''Column2''\<rparr>),
          ConstraintDelete ''Table1'' ''FK_1'',
          ConstraintCreate
            (ForeignKey ''FK_1'' ''Table1'' [''Column1''] ''Table2'' [''Column2''] (Some CASCADE) (Some CASCADE)),
          IndexDelete ''IDX_1'',
          IndexCreate (index1 (Some ''active''))]"
  by (simp add: diff_def newSchema_def table1_desired_def table1_def diffTables_def diffTable_def
        diffColumns_def diffConstraints_def diffIndexes_def new_Set_def Object_keys_def uniq_def get_def
        isArrayIndex_def isDigit_def DatabaseConstraintType_values_def column1_def index1_def
        diffColumn_Own diffConstraint_Own diffIndex_Own diffPrimaryKeyConstraint_def
        diffForeignKeyConstraint_def diffUniqueConstraint_def diffCheckConstraint_def
        dropAndRecreateConstraint_Own haveEqualColumns_Some diffColumn_def dropAndRecreateColumn_def
        objectPrototype_def insert_commute)

section \<open>Properties of the constraint names\<close>

lemma length_hex32 [simp]: "length (hex32 w) = 8"
  by (simp add: hex32_def)

lemma length_sha1_hex [simp]: "length (sha1_hex h) = 40"
proof -
  obtain h0 h1 h2 h3 h4 where "h = (h0, h1, h2, h3, h4)" by (metis prod_cases5)
  then show ?thesis by (simp add: sha1_hex_def)
qed

lemma length_sha1 [simp]: "length (sha1 v) = 40"
  by (simp add: sha1_def)

lemma hexDigit_hex: "isHexDigit (hexDigit n)"
  unfolding isHexDigit_def hexDigit_def by (rule nth_mem) simp

lemma hex32_hex: "list_all isHexDigit (hex32 w)"
  by (simp add: hex32_def hexDigit_hex)

lemma sha1_hex_hex: "list_all isHexDigit (sha1_hex h)"
proof -
  obtain h0 h1 h2 h3 h4 where "h = (h0, h1, h2, h3, h4)" by (metis prod_cases5)
  then show ?thesis by (simp add: sha1_hex_def hex32_hex)
qed

lemma sha1_hex_digits: "list_all isHexDigit (sha1 v)"
  by (simp add: sha1_def sha1_hex_hex)

text \<open>Evaluation of \<open>sha1\<close> inside the logic: every sum and rotation is brought back to
  32 bits as soon as it is computed.\<close>

lemma rotl_eval: "rotl n w = take_bit 32 (push_bit n w OR drop_bit (32 - n) w)"
  by (simp add: rotl_def take_bit_word_eq_self)

lemma sha1_round_eval:
  "sha1_round w t (a, b, c, d, e) =
     (take_bit 32 (rotl 5 a + sha1_f t b c d + e + sha1_k t + w ! t), a, rotl 30 b, c, d)"
  by (simp add: sha1_round_def take_bit_word_eq_self)

lemma sha1_f_eval:
  "sha1_f t b c d = take_bit 32
     (if t < 20 then (b AND c) OR (NOT b AND d)
      else if t < 40 then b XOR c XOR d
      else if t < 60 then (b AND c) OR (b AND d) OR (c AND d)
      else b XOR c XOR d)"
  by (simp add: sha1_f_def take_bit_word_eq_self)

lemma sha1_block_eval:
  "sha1_block block (h0, h1, h2, h3, h4) =
     (case fold (sha1_round (sha1_schedule block)) [0 ..< 80] (h0, h1, h2, h3, h4) of
        (a, b, c, d, e) \<Rightarrow>
          (take_bit 32 (h0 + a), take_bit 32 (h1 + b), take_bit 32 (h2 + c),
           take_bit 32 (h3 + d), take_bit 32 (h4 + e)))"
  by (simp add: sha1_block_def take_bit_word_eq_self)

lemma upt_0_80: "[0 ..< 80] = 0 # Suc 0 # [2 ..< 80]"
  by (simp add: upt_conv_Cons)

lemma replicate_numeral_eval: "replicate (numeral k) x = x # replicate (pred_numeral k) x"
  by (simp add: numeral_eq_Suc)

lemmas sha1_eval =
  sha1_def utf8_def sha1_pad_def sha1_blocks_def sha1_init_def sha1_block_eval sha1_round_eval
  sha1_f_eval sha1_k_def sha1_schedule_def rotl_eval sha1_hex_def hex32_def hexDigit_def upt_0_80
  replicate_numeral_eval

lemma sha1_users_email: "sha1 ''users_email'' = ''97672ac88f789774dd47f7c8be3510e442ba033b''"
  by (simp add: sha1_eval)

lemma sort_mset_eq: "mset xs = mset ys \<Longrightarrow> sort xs = sort (ys :: string list)"
  by (rule properties_for_sort) simp_all

lemma list_all_take: "list_all P xs \<Longrightarrow> list_all P (take n xs)"
  by (auto simp: list_all_iff dest: in_set_takeD)

lemma asKey_prefix3:
  "length prefix = 3 \<Longrightarrow>
   asKey prefix tableName columnNames =
     prefix @ take 27 (sha1 (tableName @ ''_'' @ join ''_'' (sort columnNames)))"
  by (simp add: asKey_def)

lemma sort_set_eq:
  "distinct xs \<Longrightarrow> distinct ys \<Longrightarrow> set xs = set ys \<Longrightarrow> sort xs = sort (ys :: string list)"
  by (rule sort_mset_eq) (simp add: set_eq_iff_mset_eq_distinct)

text \<open>
  C3. Constraint-name hashing: the synthesized name of a primary-key, unique or foreign-key
  constraint is the prefix \<open>PK_\<close>, \<open>UQ_\<close> or \<open>FK_\<close> followed by the first 27 hexadecimal
  digits of \<open>sha1(tableName + '_' + sortedColumnNames.join('_'))\<close>; it is exactly 30
  characters long; and, the list being sorted first, it is a function of the prefix, the
  table name and the set of column names: two lists of column names (names are unique within
  a table) with the same elements give the same name, as do two lists that are permutations
  of each other.
\<close>

theorem constraint_name:
  "asPrimaryKeyConstraintName tableName columnNames =
     ''PK_'' @ take 27 (sha1 (tableName @ ''_'' @ join ''_'' (sort columnNames))) \<and>
   asUniqueConstraintName tableName columnNames =
     ''UQ_'' @ take 27 (sha1 (tableName @ ''_'' @ join ''_'' (sort columnNames))) \<and>
   asForeignKeyConstraintName tableName columnNames =
     ''FK_'' @ take 27 (sha1 (tableName @ ''_'' @ join ''_'' (sort columnNames))) \<and>
   length (asPrimaryKeyConstraintName tableName columnNames) = 30 \<and>
   length (asUniqueConstraintName tableName columnNames) = 30 \<and>
   length (asForeignKeyConstraintName tableName columnNames) = 30 \<and>
   list_all isHexDigit (take 27 (sha1 (tableName @ ''_'' @ join ''_'' (sort columnNames)))) \<and>
   (mset columnNames = mset columnNames' \<longrightarrow>
      asKey prefix tableName columnNames = asKey prefix tableName columnNames') \<and>
   (distinct columnNames \<and> distinct columnNames' \<and> set columnNames = set columnNames' \<longrightarrow>
      asKey prefix tableName columnNames = asKey prefix tableName columnNames')"
  by (auto simp: asPrimaryKeyConstraintName_def asUniqueConstraintName_def
        asForeignKeyConstraintName_def asKey_prefix3 list_all_take sha1_hex_digits asKey_def
      dest: sort_mset_eq sort_set_eq)

theorem constraint_name_witness:
  "asUniqueConstraintName ''users'' [''email''] = ''UQ_97672ac88f789774dd47f7c8be3'' \<and>
   length (asUniqueConstraintName ''users'' [''email'']) = 30 \<and>
   mset [''ownerId'', ''checksum''] = mset [''checksum'', ''ownerId''] \<and>
   distinct [''ownerId'', ''checksum''] \<and> distinct [''checksum'', ''ownerId''] \<and>
   set [''ownerId'', ''checksum''] = set [''checksum'', ''ownerId''] \<and>
   asKey ''UQ_'' ''assets'' [''ownerId'', ''checksum''] = asKey ''UQ_'' ''assets'' [''checksum'', ''ownerId'']"
  using constraint_name [of "''users''" "[''email'']" "[''email'']" "''UQ_''"]
    constraint_name [of "''assets''" "[''ownerId'', ''checksum'']" "[''checksum'', ''ownerId'']" "''UQ_''"]
  by (simp add: sha1_users_email insert_commute)

end
